theory Spec2Isabelle
  imports Complex_Main
begin

section \<open>Klipper Save-Restore Position: the embedding\<close>

text \<open>
  The source is \<^verbatim>\<open>src/extensions/klipper_save_restore_position.py\<close>. The class
  \<^verbatim>\<open>KlipperSaveRestorePosition\<close> keeps one attribute, \<^verbatim>\<open>_saved_position\<close>, a list of
  three slots that hold a float or \<^verbatim>\<open>None\<close>, and talks to two collaborators of the host:
  \<^verbatim>\<open>gcode_move._get_gcode_position()\<close>, which yields the live position, and
  \<^verbatim>\<open>gcode.run_script_from_command(cmd)\<close>, which executes a script and may raise.

  Conventions of the model.
  \<^item> A finite Python float is a rational number, so slot values are \<^typ>\<open>rat\<close>. The
    non-finite floats and the negative zero are outside the model, and \<^verbatim>\<open>+=\<close> on two
    floats is the addition of \<^typ>\<open>rat\<close> (the rounding of the sum is not modelled).
  \<^item> A character of a Python string is a \<^typ>\<open>char\<close> (code points below 256).
  \<^item> An exception is a value of \<open>py_exc\<close>; an operation returns its outcome together with
    the state it leaves behind.
\<close>

subsection \<open>Exceptions and outcomes\<close>

text \<open>
  The exceptions the module can raise. Three come from the Python runtime, one stands for
  whatever a collaborator of the host raises (named by its \<^verbatim>\<open>str()\<close>), and three are the
  wrappers the module builds with \<^verbatim>\<open>raise ... from e\<close>; the argument of a wrapper is the
  exception \<^verbatim>\<open>e\<close> it was raised from, which also determines its message:
  \<^item> \<open>RestoreFailure e\<close> is \<^verbatim>\<open>Exception("Error restoring position: %s" % str(e))\<close> (line 118);
  \<^item> \<open>SavePositionError e\<close> is \<^verbatim>\<open>gcmd.error("KTC_SAVE_POSITION: Error: %s" % str(e))\<close> (line 67);
  \<^item> \<open>RestoreCommandError e\<close> is \<^verbatim>\<open>gcmd.error\<close> raised without arguments (line 104).
\<close>

datatype py_exc =
    KeyError char
  | IndexError
  | TypeError
  | HostError string
  | RestoreFailure py_exc
  | SavePositionError py_exc
  | RestoreCommandError py_exc

text \<open>The attribute \<^verbatim>\<open>__cause__\<close> that \<^verbatim>\<open>raise ... from e\<close> sets.\<close>

fun exc_cause :: "py_exc \<Rightarrow> py_exc option" where
  "exc_cause (RestoreFailure e) = Some e"
| "exc_cause (SavePositionError e) = Some e"
| "exc_cause (RestoreCommandError e) = Some e"
| "exc_cause _ = None"

datatype outcome = Returned | Raised py_exc

subsection \<open>Constants and list access\<close>

text \<open>\<^verbatim>\<open>XYZ_TO_INDEX = {"x": 0, "X": 0, "y": 1, "Y": 1, "z": 2, "Z": 2}\<close> (line 17).\<close>

definition XYZ_TO_INDEX :: "char \<rightharpoonup> nat" where
  "XYZ_TO_INDEX = map_of
     [(CHR ''x'', 0), (CHR ''X'', 0), (CHR ''y'', 1), (CHR ''Y'', 1), (CHR ''z'', 2), (CHR ''Z'', 2)]"

text \<open>\<^verbatim>\<open>d[k]\<close> on a dictionary raises \<^verbatim>\<open>KeyError\<close> for a missing key.\<close>

definition dict_getitem :: "(char \<rightharpoonup> nat) \<Rightarrow> char \<Rightarrow> py_exc + nat" where
  "dict_getitem d k = (case d k of None \<Rightarrow> Inl (KeyError k) | Some i \<Rightarrow> Inr i)"

text \<open>
  \<^verbatim>\<open>xs[i]\<close> and \<^verbatim>\<open>xs[i] = v\<close> on a list raise \<^verbatim>\<open>IndexError\<close> out of range. Every
  index of the module comes from \<open>XYZ_TO_INDEX\<close>, so none is negative.
\<close>

definition list_getitem :: "'a list \<Rightarrow> nat \<Rightarrow> py_exc + 'a" where
  "list_getitem xs i = (if i < length xs then Inr (xs ! i) else Inl IndexError)"

definition list_setitem :: "'a list \<Rightarrow> nat \<Rightarrow> 'a \<Rightarrow> py_exc + 'a list" where
  "list_setitem xs i v = (if i < length xs then Inr (xs[i := v]) else Inl IndexError)"

subsection \<open>String formatting\<close>

text \<open>The decimal digits of a natural number, as \<^verbatim>\<open>"%d"\<close> prints them.\<close>

definition digit_char :: "nat \<Rightarrow> char" where
  "digit_char d = ''0123456789'' ! d"

fun show_nat :: "nat \<Rightarrow> string" where
  "show_nat n = (if n < 10 then [digit_char n] else show_nat (n div 10) @ [digit_char (n mod 10)])"

declare show_nat.simps [simp del]

text \<open>\<^verbatim>\<open>"%i" % (speed,)\<close> for an integer.\<close>

definition fmt_i :: "int \<Rightarrow> string" where
  "fmt_i k = (if k < 0 then ''-'' @ show_nat (nat (- k)) else show_nat (nat k))"

text \<open>
  \<^verbatim>\<open>"%.3f" % v\<close> prints the decimal with three fractional digits that is nearest to the
  exact value of \<open>v\<close>, a tie going to the even last digit, after the sign of \<open>v\<close>.
  \<open>thousandths v\<close> is that decimal of \<open>\<bar>v\<bar>\<close>, counted in units of 0.001.
\<close>

definition round_half_even :: "rat \<Rightarrow> int" where
  "round_half_even q =
     (let f = \<lfloor>q\<rfloor>; d = q - of_int f
      in if d < 1 / 2 then f else if 1 / 2 < d then f + 1 else if even f then f else f + 1)"

definition thousandths :: "rat \<Rightarrow> nat" where
  "thousandths v = nat (round_half_even (\<bar>v\<bar> * 1000))"

definition fmt_3f :: "rat \<Rightarrow> string" where
  "fmt_3f v =
     (let m = thousandths v
      in (if v < 0 then ''-'' else []) @ show_nat (m div 1000) @ ''.'' @
         [digit_char (m div 100 mod 10), digit_char (m div 10 mod 10), digit_char (m mod 10)])"

subsection \<open>The state and the collaborators\<close>

text \<open>
  The state of an instance: the attribute \<^verbatim>\<open>_saved_position\<close>, and the scripts the
  instance has handed to \<^verbatim>\<open>gcode.run_script_from_command\<close> so far, oldest first (the
  observable effect on the host).
\<close>

record store =
  saved_position :: "rat option list"
  gcode_scripts :: "string list"

text \<open>\<^verbatim>\<open>__init__\<close> (line 30): \<^verbatim>\<open>self._saved_position = [None, None, None]\<close>.\<close>

definition init :: store where
  "init = \<lparr>saved_position = [None, None, None], gcode_scripts = []\<rparr>"

text \<open>
  The parsed command \<^verbatim>\<open>gcmd\<close> of the host, by its three accessors, each called with the
  default \<^verbatim>\<open>None\<close>: the result is \<open>None\<close> when the parameter is absent. (A
  parameter that does not parse is rejected by the host's accessor and is outside the model.)
\<close>

record gcode_command =
  get_float :: "string \<Rightarrow> rat option"
  get_str :: "string \<Rightarrow> string option"
  get_int :: "string \<Rightarrow> int option"

text \<open>
  \<^verbatim>\<open>gcode.run_script_from_command\<close>, as a parameter of the operations that call it:
  \<open>None\<close> when the script runs, \<open>Some e\<close> when the host raises \<open>e\<close>.
\<close>

type_synonym executor = "string \<Rightarrow> py_exc option"

subsection \<open>\<^verbatim>\<open>offset_from_gcmd\<close> and \<^verbatim>\<open>KTC_SAVE_POSITION\<close>\<close>

text \<open>
  One round of the loop of \<^verbatim>\<open>offset_from_gcmd\<close> (lines 51 to 56), for one axis letter.
  \<^verbatim>\<open>offset[i] += adjust\<close> reads the slot, adds, and stores; adding to \<^verbatim>\<open>None\<close> raises
  \<^verbatim>\<open>TypeError\<close>.
\<close>

definition offset_axis :: "gcode_command \<Rightarrow> char \<Rightarrow> rat option list \<Rightarrow> py_exc + rat option list" where
  "offset_axis gcmd axis offset =
     (let pos = get_float gcmd [axis];
          adjust = get_float gcmd ([axis] @ ''_ADJUST'')
      in case pos of
           Some p \<Rightarrow>
             (case dict_getitem XYZ_TO_INDEX axis of
                Inl e \<Rightarrow> Inl e
              | Inr i \<Rightarrow> list_setitem offset i (Some p))
         | None \<Rightarrow>
             (case adjust of
                Some a \<Rightarrow>
                  (case dict_getitem XYZ_TO_INDEX axis of
                     Inl e \<Rightarrow> Inl e
                   | Inr i \<Rightarrow>
                       (case list_getitem offset i of
                          Inl e \<Rightarrow> Inl e
                        | Inr None \<Rightarrow> Inl TypeError
                        | Inr (Some v) \<Rightarrow> list_setitem offset i (Some (v + a))))
              | None \<Rightarrow> Inr offset))"

fun offset_loop :: "gcode_command \<Rightarrow> string \<Rightarrow> rat option list \<Rightarrow> py_exc + rat option list" where
  "offset_loop gcmd [] offset = Inr offset"
| "offset_loop gcmd (axis # axes) offset =
     (case offset_axis gcmd axis offset of
        Inl e \<Rightarrow> Inl e
      | Inr offset' \<Rightarrow> offset_loop gcmd axes offset')"

text \<open>\<^verbatim>\<open>for axis in ["X", "Y", "Z"]: ...; return offset\<close> (lines 50 to 57).\<close>

definition offset_from_gcmd :: "gcode_command \<Rightarrow> rat option list \<Rightarrow> py_exc + rat option list" where
  "offset_from_gcmd gcmd offset = offset_loop gcmd ''XYZ'' offset"

text \<open>
  \<^verbatim>\<open>cmd_KTC_SAVE_POSITION\<close> (lines 63 to 67). The list handed to \<^verbatim>\<open>offset_from_gcmd\<close> is
  the literal \<^verbatim>\<open>[None, None, None]\<close>, not the attribute; the attribute is assigned only
  when the call returns.
\<close>

definition cmd_KTC_SAVE_POSITION :: "gcode_command \<Rightarrow> store \<Rightarrow> outcome \<times> store" where
  "cmd_KTC_SAVE_POSITION gcmd s =
     (case offset_from_gcmd gcmd [None, None, None] of
        Inl e \<Rightarrow> (Raised (SavePositionError e), s)
      | Inr offset \<Rightarrow> (Returned, s\<lparr>saved_position := offset\<rparr>))"

subsection \<open>\<^verbatim>\<open>SaveCurrentPosition\<close> and \<^verbatim>\<open>KTC_SAVE_CURRENT_POSITION\<close>\<close>

text \<open>
  The loop of \<^verbatim>\<open>SaveCurrentPosition\<close> (lines 86 to 89) over the characters of
  \<^verbatim>\<open>restore_axis\<close>: the right-hand side \<^verbatim>\<open>current_position[i]\<close> is read, then stored
  in the attribute, which the loop mutates in place. When a read raises, the slots
  written so far stay written.
\<close>

fun save_loop :: "rat list \<Rightarrow> string \<Rightarrow> rat option list \<Rightarrow> outcome \<times> rat option list" where
  "save_loop current_position [] sp = (Returned, sp)"
| "save_loop current_position (axis # axes) sp =
     (case XYZ_TO_INDEX axis of
        None \<Rightarrow> save_loop current_position axes sp
      | Some i \<Rightarrow>
          (case list_getitem current_position i of
             Inl e \<Rightarrow> (Raised e, sp)
           | Inr v \<Rightarrow>
               (case list_setitem sp i (Some v) of
                  Inl e \<Rightarrow> (Raised e, sp)
                | Inr sp' \<Rightarrow> save_loop current_position axes sp')))"

text \<open>
  \<^verbatim>\<open>SaveCurrentPosition\<close> (lines 78 to 89). \<open>current_position\<close> is the list that
  \<^verbatim>\<open>gcode_move._get_gcode_position()\<close> returned.
\<close>

definition SaveCurrentPosition :: "rat list \<Rightarrow> string \<Rightarrow> store \<Rightarrow> outcome \<times> store" where
  "SaveCurrentPosition current_position restore_axis s =
     (case save_loop current_position restore_axis [None, None, None] of
        (r, sp) \<Rightarrow> (r, s\<lparr>saved_position := sp\<rparr>))"

text \<open>
  \<^verbatim>\<open>cmd_KTC_SAVE_CURRENT_POSITION\<close> (lines 73 to 76):
  \<^verbatim>\<open>gcmd.get("AXIS", "XYZ").replace(" ", "")\<close>.
\<close>

definition cmd_KTC_SAVE_CURRENT_POSITION :: "rat list \<Rightarrow> gcode_command \<Rightarrow> store \<Rightarrow> outcome \<times> store" where
  "cmd_KTC_SAVE_CURRENT_POSITION current_position gcmd s =
     (let restore_axis = filter (\<lambda>c. c \<noteq> CHR '' '')
            (case get_str gcmd ''AXIS'' of None \<Rightarrow> ''XYZ'' | Some a \<Rightarrow> a)
      in SaveCurrentPosition current_position restore_axis s)"

subsection \<open>\<^verbatim>\<open>restore_position\<close> and \<^verbatim>\<open>KTC_RESTORE_POSITION\<close>\<close>

text \<open>
  The loop of \<^verbatim>\<open>restore_position\<close> (lines 110 to 112). The index comes from
  \<^verbatim>\<open>XYZ_TO_INDEX[axis]\<close> with no membership test before it, so a character that is not a
  key raises \<^verbatim>\<open>KeyError\<close>.
\<close>

fun restore_loop :: "rat option list \<Rightarrow> string \<Rightarrow> string \<Rightarrow> py_exc + string" where
  "restore_loop sp [] cmd = Inr cmd"
| "restore_loop sp (axis # axes) cmd =
     (case dict_getitem XYZ_TO_INDEX axis of
        Inl e \<Rightarrow> Inl e
      | Inr i \<Rightarrow>
          (case list_getitem sp i of
             Inl e \<Rightarrow> Inl e
           | Inr None \<Rightarrow> restore_loop sp axes cmd
           | Inr (Some v) \<Rightarrow> restore_loop sp axes (cmd @ '' '' @ [axis] @ fmt_3f v)))"

text \<open>\<^verbatim>\<open>if speed:\<close> (line 114) holds for an integer that is neither \<^verbatim>\<open>None\<close> nor 0.\<close>

fun with_speed :: "string \<Rightarrow> int option \<Rightarrow> string" where
  "with_speed cmd None = cmd"
| "with_speed cmd (Some k) = (if k \<noteq> 0 then cmd @ '' F'' @ fmt_i k else cmd)"

text \<open>
  \<^verbatim>\<open>restore_position\<close> (lines 106 to 118). Whatever is raised inside the \<^verbatim>\<open>try\<close> block,
  by the loop or by the host, is raised again as \<open>RestoreFailure\<close> from it.
\<close>

definition restore_position :: "executor \<Rightarrow> string \<Rightarrow> int option \<Rightarrow> store \<Rightarrow> outcome \<times> store" where
  "restore_position run_script_from_command axis_to_restore speed s =
     (case restore_loop (saved_position s) axis_to_restore ''G0'' of
        Inl e \<Rightarrow> (Raised (RestoreFailure e), s)
      | Inr cmd \<Rightarrow>
          if cmd \<noteq> ''G0'' then
            (let cmd' = with_speed cmd speed;
                 s' = s\<lparr>gcode_scripts := gcode_scripts s @ [cmd']\<rparr>
             in case run_script_from_command cmd' of
                  Some e \<Rightarrow> (Raised (RestoreFailure e), s')
                | None \<Rightarrow> (Returned, s'))
          else (Returned, s))"

text \<open>
  \<^verbatim>\<open>str.strip()\<close> removes the white space at both ends; below 256 the white-space
  characters are the code points 9 to 13, 28 to 32, 133 and 160.
\<close>

definition isspace :: "char \<Rightarrow> bool" where
  "isspace c = (let n = (of_char c :: nat) in (9 \<le> n \<and> n \<le> 13) \<or> (28 \<le> n \<and> n \<le> 32) \<or> n = 133 \<or> n = 160)"

definition strip :: "string \<Rightarrow> string" where
  "strip xs = rev (dropWhile isspace (rev (dropWhile isspace xs)))"

text \<open>\<^verbatim>\<open>cmd_KTC_RESTORE_POSITION\<close> (lines 97 to 104).\<close>

definition cmd_KTC_RESTORE_POSITION :: "executor \<Rightarrow> gcode_command \<Rightarrow> store \<Rightarrow> outcome \<times> store" where
  "cmd_KTC_RESTORE_POSITION run_script_from_command gcmd s =
     (let axis_to_restore = strip (case get_str gcmd ''AXIS'' of None \<Rightarrow> ''XYZ'' | Some a \<Rightarrow> a);
          speed = get_int gcmd ''SPEED''
      in case restore_position run_script_from_command axis_to_restore speed s of
           (Raised e, s') \<Rightarrow> (Raised (RestoreCommandError e), s')
         | (Returned, s') \<Rightarrow> (Returned, s'))"

text \<open>\<^verbatim>\<open>get_status\<close> (lines 120 to 124): the value under the key \<^verbatim>\<open>"saved_position"\<close>.\<close>

definition get_status :: "store \<Rightarrow> rat option list" where
  "get_status s = saved_position s"

section \<open>Notions of the specification\<close>

text \<open>
  The definitions of this section follow the words of the specification, not the source;
  the theorems below compare them with the operations of the embedding.
\<close>

text \<open>The axis identifiers the specification recognizes: X, Y and Z, in either case.\<close>

definition recognized :: "char \<Rightarrow> bool" where
  "recognized c = (c \<in> set ''xXyYzZ'')"

text \<open>
  The invariant of the snapshot: exactly three slots. That a slot is a value or unset,
  with no third state, is the type \<^typ>\<open>rat option\<close> of a slot.
\<close>

definition snapshot_inv :: "store \<Rightarrow> bool" where
  "snapshot_inv s = (length (saved_position s) = 3)"

text \<open>
  The snapshot after a capture: a slot holds the live coordinate of its axis when the
  axis was requested, in either case, and is unset otherwise.
\<close>

definition capture_spec :: "rat list \<Rightarrow> string \<Rightarrow> rat option list" where
  "capture_spec current_position axes =
     [if CHR ''x'' \<in> set axes \<or> CHR ''X'' \<in> set axes then Some (current_position ! 0) else None,
      if CHR ''y'' \<in> set axes \<or> CHR ''Y'' \<in> set axes then Some (current_position ! 1) else None,
      if CHR ''z'' \<in> set axes \<or> CHR ''Z'' \<in> set axes then Some (current_position ! 2) else None]"

text \<open>
  The term of one requested axis in the motion command: the axis letter as it was given
  and the stored value with three decimals, or nothing when the slot is unset (or the
  identifier is not an axis). The terms of a sequence are the terms of its axes in the
  order given.
\<close>

definition axis_term :: "rat option list \<Rightarrow> char \<Rightarrow> string" where
  "axis_term sp axis =
     (case XYZ_TO_INDEX axis of
        None \<Rightarrow> []
      | Some i \<Rightarrow> (case sp ! i of None \<Rightarrow> [] | Some v \<Rightarrow> '' '' @ [axis] @ fmt_3f v))"

definition axis_terms :: "rat option list \<Rightarrow> string \<Rightarrow> string" where
  "axis_terms sp axes = concat (map (axis_term sp) axes)"

text \<open>The feed term: the feed rate as an integer, for a feed rate that is given and not 0.\<close>

definition feed_term :: "int option \<Rightarrow> string" where
  "feed_term speed =
     (case speed of None \<Rightarrow> [] | Some k \<Rightarrow> if k = 0 then [] else '' F'' @ fmt_i k)"

text \<open>A payload gives an adjustment for an axis and no absolute value.\<close>

definition adjust_only :: "gcode_command \<Rightarrow> char \<Rightarrow> bool" where
  "adjust_only gcmd axis =
     (get_float gcmd [axis] = None \<and> get_float gcmd ([axis] @ ''_ADJUST'') \<noteq> None)"

text \<open>Slot \<open>i\<close> is the slot of some character of the sequence (used in the proofs).\<close>

definition requested :: "string \<Rightarrow> nat \<Rightarrow> bool" where
  "requested axes i = (\<exists>a \<in> set axes. XYZ_TO_INDEX a = Some i)"

section \<open>Auxiliary facts\<close>

subsection \<open>The axis table\<close>

lemma XYZ_TO_INDEX_Some:
  "XYZ_TO_INDEX c = Some i \<longleftrightarrow>
     (c \<in> {CHR ''x'', CHR ''X''} \<and> i = 0) \<or> (c \<in> {CHR ''y'', CHR ''Y''} \<and> i = 1) \<or>
     (c \<in> {CHR ''z'', CHR ''Z''} \<and> i = 2)"
  by (auto simp: XYZ_TO_INDEX_def)

lemma XYZ_TO_INDEX_less: "XYZ_TO_INDEX c = Some i \<Longrightarrow> i < 3"
  by (auto simp: XYZ_TO_INDEX_Some)

lemma XYZ_TO_INDEX_None: "XYZ_TO_INDEX c = None \<longleftrightarrow> \<not> recognized c"
  by (auto simp: XYZ_TO_INDEX_def recognized_def)

lemma requested_iff:
  "requested axes 0 \<longleftrightarrow> CHR ''x'' \<in> set axes \<or> CHR ''X'' \<in> set axes"
  "requested axes (Suc 0) \<longleftrightarrow> CHR ''y'' \<in> set axes \<or> CHR ''Y'' \<in> set axes"
  "requested axes 2 \<longleftrightarrow> CHR ''z'' \<in> set axes \<or> CHR ''Z'' \<in> set axes"
  by (auto simp: requested_def XYZ_TO_INDEX_Some)

lemma list3: "length xs = 3 \<Longrightarrow> \<exists>a b c. xs = [a, b, c]"
  by (cases xs; simp; cases "tl xs"; simp; cases "tl (tl xs)"; auto)

subsection \<open>Evaluating the formats\<close>

lemma round_half_even_near: "\<bar>q - of_int k\<bar> < 1 / 2 \<Longrightarrow> round_half_even q = k"
proof -
  assume a: "\<bar>q - of_int k\<bar> < 1 / 2"
  show ?thesis
  proof (cases "of_int k \<le> q")
    case True
    with a have "\<lfloor>q\<rfloor> = k" by (intro floor_unique) auto
    with a True show ?thesis by (simp add: round_half_even_def Let_def)
  next
    case False
    with a have "\<lfloor>q\<rfloor> = k - 1" by (intro floor_unique) auto
    with a False show ?thesis by (simp add: round_half_even_def Let_def)
  qed
qed

lemma round_half_even_error: "\<bar>of_int (round_half_even q) - q\<bar> \<le> 1 / 2"
proof -
  have "of_int \<lfloor>q\<rfloor> \<le> q" "q < of_int \<lfloor>q\<rfloor> + 1" by linarith+
  then show ?thesis
    by (auto simp: round_half_even_def Let_def)
qed

lemma round_half_even_nonneg: "0 \<le> q \<Longrightarrow> 0 \<le> round_half_even q"
  by (auto simp: round_half_even_def Let_def)

lemma thousandths_near: "\<bar>\<bar>v\<bar> * 1000 - of_nat m\<bar> < 1 / 2 \<Longrightarrow> thousandths v = m"
  using round_half_even_near [of "\<bar>v\<bar> * 1000" "int m"] by (simp add: thousandths_def)

lemma thousandths_error: "\<bar>of_nat (thousandths v) / 1000 - \<bar>v\<bar>\<bar> \<le> 1 / 2000"
proof -
  have "0 \<le> round_half_even (\<bar>v\<bar> * 1000)" by (rule round_half_even_nonneg) simp
  then have "(of_nat (thousandths v) :: rat) = of_int (round_half_even (\<bar>v\<bar> * 1000))"
    by (simp add: thousandths_def)
  with round_half_even_error [of "\<bar>v\<bar> * 1000"] show ?thesis
    by (simp add: field_simps abs_le_iff)
qed

lemma show_nat_numeral:
  "show_nat (numeral k) =
     (if numeral k < (10::nat) then [digit_char (numeral k)]
      else show_nat (numeral k div 10) @ [digit_char (numeral k mod 10)])"
  by (rule show_nat.simps)

lemma show_nat_0: "show_nat 0 = ''0''"
  by (simp add: show_nat.simps digit_char_def)

lemma show_nat_1: "show_nat (Suc 0) = ''1''"
  by (simp add: show_nat.simps digit_char_def)

lemmas show_nat_eval = show_nat_numeral show_nat_0 show_nat_1 digit_char_def

lemma fmt_3f_near:
  "\<bar>\<bar>v\<bar> * 1000 - of_nat m\<bar> < 1 / 2 \<Longrightarrow>
   fmt_3f v = (if v < 0 then ''-'' else []) @ show_nat (m div 1000) @ ''.'' @
     [digit_char (m div 100 mod 10), digit_char (m div 10 mod 10), digit_char (m mod 10)]"
  by (simp add: fmt_3f_def thousandths_near)

lemma fmt_3f_0: "fmt_3f 0 = ''0.000''"
  by (simp add: fmt_3f_near [of _ 0] show_nat_eval)

lemma fmt_3f_1: "fmt_3f 1 = ''1.000''"
  by (simp add: fmt_3f_near [of _ 1000] show_nat_eval)

lemma fmt_3f_2: "fmt_3f 2 = ''2.000''"
  by (simp add: fmt_3f_near [of _ 2000] show_nat_eval)

lemma fmt_3f_minus_3: "fmt_3f (- 3) = ''-3.000''"
  by (simp add: fmt_3f_near [of _ 3000] show_nat_eval)

lemma fmt_3f_4096th: "fmt_3f (1 / 4096) = ''0.000''"
  by (simp add: fmt_3f_near [of _ 0] show_nat_eval)

lemma fmt_3f_10123: "fmt_3f (10123 / 1000) = ''10.123''"
  by (simp add: fmt_3f_near [of _ 10123] show_nat_eval)

lemma fmt_i_3000: "fmt_i 3000 = ''3000''"
  by (simp add: fmt_i_def show_nat_eval)

lemmas restore_eval =
  restore_position_def dict_getitem_def list_getitem_def XYZ_TO_INDEX_def Let_def

subsection \<open>The loops\<close>

lemma save_loop_total:
  "length sp = 3 \<Longrightarrow> 3 \<le> length cp \<Longrightarrow>
   save_loop cp axes sp =
     (Returned, map (\<lambda>i. if requested axes i then Some (cp ! i) else sp ! i) [0, 1, 2])"
proof (induction axes arbitrary: sp)
  case Nil
  then obtain a b c where "sp = [a, b, c]" using list3 by blast
  then show ?case by (simp add: requested_def)
next
  case (Cons axis axes)
  show ?case
  proof (cases "XYZ_TO_INDEX axis")
    case None
    then have "requested (axis # axes) = requested axes"
      by (auto simp: requested_def fun_eq_iff)
    with None Cons show ?thesis by simp
  next
    case (Some i)
    then have i: "i < 3" by (rule XYZ_TO_INDEX_less)
    have len: "length (sp[i := Some (cp ! i)]) = 3" using Cons.prems by simp
    have req: "requested (axis # axes) j \<longleftrightarrow> j = i \<or> requested axes j" for j
      using Some by (auto simp: requested_def)
    from i have "i = 0 \<or> i = 1 \<or> i = 2" by arith
    then show ?thesis
      using Some i Cons.prems Cons.IH [OF len Cons.prems(2)]
      by (auto simp: list_getitem_def list_setitem_def req)
  qed
qed

lemma save_loop_length: "length sp = 3 \<Longrightarrow> length (snd (save_loop cp axes sp)) = 3"
  by (induction axes arbitrary: sp)
     (auto simp: list_getitem_def list_setitem_def split: option.splits)

lemma capture_all:
  "3 \<le> length cp \<Longrightarrow>
   SaveCurrentPosition cp ''XYZ'' s =
     (Returned, s\<lparr>saved_position := [Some (cp ! 0), Some (cp ! 1), Some (cp ! 2)]\<rparr>)"
  using save_loop_total [of "[None, None, None]" cp "''XYZ''"]
  by (simp add: SaveCurrentPosition_def requested_def XYZ_TO_INDEX_def del: save_loop.simps)

lemma offset_axis_length:
  "offset_axis gcmd axis offset = Inr offset' \<Longrightarrow> length offset' = length offset"
  by (auto simp: offset_axis_def list_setitem_def list_getitem_def dict_getitem_def
           split: option.splits sum.splits if_splits)

lemma offset_loop_length:
  "offset_loop gcmd axes offset = Inr offset' \<Longrightarrow> length offset' = length offset"
proof (induction axes arbitrary: offset)
  case Nil
  then show ?case by simp
next
  case (Cons axis axes)
  then show ?case
    by (auto split: sum.splits dest: offset_axis_length)
qed

lemma offset_axis_fresh:
  "XYZ_TO_INDEX axis = Some i \<Longrightarrow> i < length offset \<Longrightarrow> offset ! i = None \<Longrightarrow>
   offset_axis gcmd axis offset =
     (if adjust_only gcmd axis then Inl TypeError else Inr (offset[i := get_float gcmd [axis]]))"
proof -
  assume "XYZ_TO_INDEX axis = Some i" "i < length offset" "offset ! i = None"
  moreover from this have "offset[i := None] = offset"
    by (metis list_update_id)
  ultimately show ?thesis
    by (auto simp: offset_axis_def adjust_only_def dict_getitem_def list_getitem_def
        list_setitem_def split: option.splits)
qed

lemma offset_from_gcmd_fresh:
  "offset_from_gcmd gcmd [None, None, None] =
     (if adjust_only gcmd CHR ''X'' \<or> adjust_only gcmd CHR ''Y'' \<or> adjust_only gcmd CHR ''Z''
      then Inl TypeError
      else Inr [get_float gcmd ''X'', get_float gcmd ''Y'', get_float gcmd ''Z''])"
proof -
  have x: "XYZ_TO_INDEX CHR ''X'' = Some 0" and y: "XYZ_TO_INDEX CHR ''Y'' = Some 1"
    and z: "XYZ_TO_INDEX CHR ''Z'' = Some 2"
    by (simp_all add: XYZ_TO_INDEX_def)
  show ?thesis
    by (simp add: offset_from_gcmd_def offset_axis_fresh [OF x] offset_axis_fresh [OF y]
        offset_axis_fresh [OF z])
qed

lemma cmd_KTC_SAVE_POSITION_result:
  "cmd_KTC_SAVE_POSITION gcmd s =
     (if \<exists>b \<in> set ''XYZ''. adjust_only gcmd b then (Raised (SavePositionError TypeError), s)
      else (Returned,
            s\<lparr>saved_position := [get_float gcmd ''X'', get_float gcmd ''Y'', get_float gcmd ''Z'']\<rparr>))"
  by (simp add: cmd_KTC_SAVE_POSITION_def offset_from_gcmd_fresh)

lemma restore_loop_recognized:
  "length sp = 3 \<Longrightarrow> \<forall>a \<in> set axes. recognized a \<Longrightarrow>
   restore_loop sp axes cmd = Inr (cmd @ axis_terms sp axes)"
proof (induction axes arbitrary: cmd)
  case Nil
  then show ?case by (simp add: axis_terms_def)
next
  case (Cons axis axes)
  from Cons.prems have "recognized axis" by simp
  then obtain i where i: "XYZ_TO_INDEX axis = Some i"
    using XYZ_TO_INDEX_None [of axis] by (cases "XYZ_TO_INDEX axis") auto
  then have "i < length sp" using Cons.prems(1) XYZ_TO_INDEX_less [of axis i] by simp
  with i Cons show ?case
    by (cases "sp ! i") (simp_all add: dict_getitem_def list_getitem_def axis_terms_def axis_term_def)
qed

lemma with_speed_feed_term: "with_speed cmd speed = cmd @ feed_term speed"
  by (cases speed) (simp_all add: feed_term_def)

lemma restore_position_recognized:
  assumes "snapshot_inv s" and "\<forall>a \<in> set axes. recognized a"
  shows "restore_position run axes speed s =
     (if axis_terms (saved_position s) axes = [] then (Returned, s)
      else (case run (''G0'' @ axis_terms (saved_position s) axes @ feed_term speed) of
              None \<Rightarrow> Returned
            | Some e \<Rightarrow> Raised (RestoreFailure e),
            s\<lparr>gcode_scripts := gcode_scripts s @
                 [''G0'' @ axis_terms (saved_position s) axes @ feed_term speed]\<rparr>))"
proof -
  from assms have "restore_loop (saved_position s) axes ''G0'' =
      Inr (''G0'' @ axis_terms (saved_position s) axes)"
    by (simp add: restore_loop_recognized snapshot_inv_def)
  then show ?thesis
    by (simp add: restore_position_def with_speed_feed_term Let_def split: option.splits)
qed



subsection \<open>No feed letter in the axis terms\<close>







subsection \<open>The snapshot keeps its three slots\<close>

lemma cmd_KTC_SAVE_POSITION_inv:
  "snapshot_inv s \<Longrightarrow> snapshot_inv (snd (cmd_KTC_SAVE_POSITION gcmd s))"
proof (cases "offset_from_gcmd gcmd [None, None, None]")
  case (Inl e)
  assume "snapshot_inv s"
  with Inl show ?thesis by (simp add: cmd_KTC_SAVE_POSITION_def)
next
  case (Inr offset)
  then have "length offset = 3"
    unfolding offset_from_gcmd_def by (auto dest: offset_loop_length simp del: offset_loop.simps)
  with Inr show ?thesis by (simp add: cmd_KTC_SAVE_POSITION_def snapshot_inv_def)
qed

lemma SaveCurrentPosition_inv: "snapshot_inv (snd (SaveCurrentPosition cp axes s))"
  using save_loop_length [of "[None, None, None]" cp axes]
  by (cases "save_loop cp axes [None, None, None]") (simp add: SaveCurrentPosition_def snapshot_inv_def)

lemma restore_position_saved:
  "saved_position (snd (restore_position run axes speed s)) = saved_position s"
  by (simp add: restore_position_def Let_def split: sum.splits option.splits)

lemma cmd_KTC_RESTORE_POSITION_saved:
  "saved_position (snd (cmd_KTC_RESTORE_POSITION run gcmd s)) = saved_position s"
proof -
  let ?axes = "strip (case get_str gcmd ''AXIS'' of None \<Rightarrow> ''XYZ'' | Some a \<Rightarrow> a)"
  obtain r s' where eq: "restore_position run ?axes (get_int gcmd ''SPEED'') s = (r, s')"
    by (cases "restore_position run ?axes (get_int gcmd ''SPEED'') s")
  then have "saved_position s' = saved_position s"
    using restore_position_saved [of run ?axes "get_int gcmd ''SPEED''" s] by simp
  with eq show ?thesis
    by (cases r) (simp_all add: cmd_KTC_RESTORE_POSITION_def Let_def)
qed

subsection \<open>An absolute value beside an adjustment\<close>

lemma absolute_value_when_returning:
  assumes "axis \<in> set ''XYZ''"
    and "get_float gcmd [axis] = Some p"
    and "get_float gcmd ([axis] @ ''_ADJUST'') = Some a"
  shows "cmd_KTC_SAVE_POSITION gcmd s =
           cmd_KTC_SAVE_POSITION (gcmd\<lparr>get_float := (get_float gcmd)([axis] @ ''_ADJUST'' := None)\<rparr>) s
       \<and> (if \<exists>b \<in> set ''XYZ''. adjust_only gcmd b
          then cmd_KTC_SAVE_POSITION gcmd s = (Raised (SavePositionError TypeError), s)
          else fst (cmd_KTC_SAVE_POSITION gcmd s) = Returned
             \<and> get_status (snd (cmd_KTC_SAVE_POSITION gcmd s)) ! the (XYZ_TO_INDEX axis) = Some p)"
proof -
  let ?g = "gcmd\<lparr>get_float := (get_float gcmd)([axis] @ ''_ADJUST'' := None)\<rparr>"
  have same: "get_float ?g ''X'' = get_float gcmd ''X''" "get_float ?g ''Y'' = get_float gcmd ''Y''"
    "get_float ?g ''Z'' = get_float gcmd ''Z''"
    by simp_all
  have "adjust_only ?g b = adjust_only gcmd b" if "b \<in> set ''XYZ''" for b
    using that assms by (auto simp: adjust_only_def)
  then have "cmd_KTC_SAVE_POSITION gcmd s = cmd_KTC_SAVE_POSITION ?g s"
    unfolding cmd_KTC_SAVE_POSITION_result same by simp
  moreover have "get_status (snd (cmd_KTC_SAVE_POSITION gcmd s)) ! the (XYZ_TO_INDEX axis) = Some p"
    if "\<not> (\<exists>b \<in> set ''XYZ''. adjust_only gcmd b)"
    using that assms unfolding cmd_KTC_SAVE_POSITION_result
    by (auto simp: get_status_def XYZ_TO_INDEX_def)
  ultimately show ?thesis
    unfolding cmd_KTC_SAVE_POSITION_result [of gcmd s] by simp
qed

section \<open>The claims\<close>

subsection \<open>C1: the motion command of a restore\<close>

text \<open>
  Claim C1 says that for every snapshot, requested axis sequence and feed rate,
  \<^verbatim>\<open>restore_position\<close> goes through the requested axes in the order given, appends a
  term with three decimals for each axis whose slot holds a value and skips the axes with
  no stored value; that with at least one term the feed term is appended when a feed rate
  is supplied and the executor is called exactly once with the string; and that with no
  term nothing is emitted, which is no error. For recognized identifiers the code does so
  (\<open>restore_position_recognized\<close>): the axes Z then X at feed 3000 on the snapshot X = 1,
  Z = 2 give the one command of the specification. But an identifier that is no axis,
  which has no stored value, is not skipped: \<^verbatim>\<open>restore_position\<close> looks it up in
  \<^verbatim>\<open>XYZ_TO_INDEX\<close> without the membership test of \<^verbatim>\<open>SaveCurrentPosition\<close>. For the axes
  \<^verbatim>\<open>"ZQX"\<close> at feed 3000 on the same snapshot the call raises and the executor is never
  called, and for \<^verbatim>\<open>"Q"\<close> alone, where no term is appended, the call raises instead of
  doing nothing.
\<close>

theorem restore_unknown_axis_not_skipped:
  "restore_position (\<lambda>c. None) ''ZX'' (Some 3000)
       \<lparr>saved_position = [Some 1, None, Some 2], gcode_scripts = []\<rparr> =
     (Returned, \<lparr>saved_position = [Some 1, None, Some 2],
                 gcode_scripts = [''G0 Z2.000 X1.000 F3000'']\<rparr>) \<and>
   restore_position (\<lambda>c. None) ''ZQX'' (Some 3000)
       \<lparr>saved_position = [Some 1, None, Some 2], gcode_scripts = []\<rparr> =
     (Raised (RestoreFailure (KeyError CHR ''Q'')),
      \<lparr>saved_position = [Some 1, None, Some 2], gcode_scripts = []\<rparr>) \<and>
   restore_position (\<lambda>c. None) ''Q'' None
       \<lparr>saved_position = [Some 1, None, Some 2], gcode_scripts = []\<rparr> =
     (Raised (RestoreFailure (KeyError CHR ''Q'')),
      \<lparr>saved_position = [Some 1, None, Some 2], gcode_scripts = []\<rparr>)"
  by (simp add: restore_eval fmt_3f_1 fmt_3f_2 fmt_i_3000)

subsection \<open>C2: capture\<close>

text \<open>
  Claim C2. Whatever the snapshot was, and for every sequence of characters,
  \<^verbatim>\<open>SaveCurrentPosition\<close> returns with the snapshot in which a slot holds the live
  coordinate of its axis when that axis occurs in the sequence (in either case, once or
  several times) and is unset otherwise; characters that are no axis are ignored. The
  live position must have its three coordinates.
\<close>

theorem capture_sets_requested_only:
  "3 \<le> length current_position \<Longrightarrow>
   SaveCurrentPosition current_position axes s =
     (Returned, s\<lparr>saved_position := capture_spec current_position axes\<rparr>)"
  by (simp add: SaveCurrentPosition_def save_loop_total capture_spec_def requested_iff)

text \<open>
  The example of the specification: the axes X and Z, with Y holding a value before.
\<close>

theorem capture_sets_requested_only_witness:
  "3 \<le> length [10123 / 1000, 7, - 3, 0 :: rat] \<and>
   SaveCurrentPosition [10123 / 1000, 7, - 3, 0] ''XZ''
       \<lparr>saved_position = [None, Some 99, None], gcode_scripts = []\<rparr> =
     (Returned, \<lparr>saved_position = [Some (10123 / 1000), None, Some (- 3)], gcode_scripts = []\<rparr>)"
proof -
  have len: "3 \<le> length [10123 / 1000, 7, - 3, 0 :: rat]" by simp
  show ?thesis
    using capture_sets_requested_only [OF len, of "''XZ''"
        "\<lparr>saved_position = [None, Some 99, None], gcode_scripts = []\<rparr>"]
    by (simp add: capture_spec_def)
qed

subsection \<open>C3: axes a payload does not mention\<close>

text \<open>
  Claim C3 says that after \<^verbatim>\<open>KTC_SAVE_POSITION\<close> with a payload of absolute values the
  status shows the values of the payload and every axis the payload does not mention
  keeps its previous value. The code starts from \<^verbatim>\<open>[None, None, None]\<close> instead of the
  stored snapshot: after \<^verbatim>\<open>KTC_SAVE_POSITION X=1 Y=2 Z=3\<close> on a new instance, the
  payload X = 5 leaves Y and Z unset.
\<close>

theorem save_position_resets_unmentioned:
  "get_status (snd (cmd_KTC_SAVE_POSITION
       \<lparr>get_float = [''X'' \<mapsto> 1, ''Y'' \<mapsto> 2, ''Z'' \<mapsto> 3], get_str = Map.empty,
         get_int = Map.empty\<rparr> init)) = [Some 1, Some 2, Some 3] \<and>
   cmd_KTC_SAVE_POSITION \<lparr>get_float = [''X'' \<mapsto> 5], get_str = Map.empty, get_int = Map.empty\<rparr>
       \<lparr>saved_position = [Some 1, Some 2, Some 3], gcode_scripts = []\<rparr> =
     (Returned, \<lparr>saved_position = [Some 5, None, None], gcode_scripts = []\<rparr>)"
  by (simp add: cmd_KTC_SAVE_POSITION_result adjust_only_def get_status_def init_def)

subsection \<open>C4: adjusting an axis\<close>

text \<open>
  Claim C4 says that an adjustment for an axis whose slot is unset is an error, and that
  an adjustment for an axis whose slot holds \<open>v\<close> stores \<open>v\<close> plus the adjustment. The code
  adds the adjustment to a slot of the fresh \<^verbatim>\<open>[None, None, None]\<close>, never to the stored
  value: on the snapshot X = 5 (as \<^verbatim>\<open>KTC_SAVE_POSITION X=5\<close> leaves it) the adjustment
  of X by 5/2 raises (a \<^verbatim>\<open>TypeError\<close>, raised again as the error of the command) and
  the snapshot still holds X = 5, not 15/2.
\<close>

theorem save_position_adjust_raises:
  "get_status (snd (cmd_KTC_SAVE_POSITION
       \<lparr>get_float = [''X'' \<mapsto> 5], get_str = Map.empty, get_int = Map.empty\<rparr> init)) =
     [Some 5, None, None] \<and>
   cmd_KTC_SAVE_POSITION
       \<lparr>get_float = [''X_ADJUST'' \<mapsto> 5 / 2], get_str = Map.empty, get_int = Map.empty\<rparr>
       \<lparr>saved_position = [Some 5, None, None], gcode_scripts = []\<rparr> =
     (Raised (SavePositionError TypeError),
      \<lparr>saved_position = [Some 5, None, None], gcode_scripts = []\<rparr>)"
proof -
  have "adjust_only
      \<lparr>get_float = [''X_ADJUST'' \<mapsto> 5 / 2], get_str = Map.empty, get_int = Map.empty\<rparr> CHR ''X''"
    unfolding adjust_only_def by simp
  then have "cmd_KTC_SAVE_POSITION
       \<lparr>get_float = [''X_ADJUST'' \<mapsto> 5 / 2], get_str = Map.empty, get_int = Map.empty\<rparr>
       \<lparr>saved_position = [Some 5, None, None], gcode_scripts = []\<rparr> =
     (Raised (SavePositionError TypeError),
      \<lparr>saved_position = [Some 5, None, None], gcode_scripts = []\<rparr>)"
    unfolding cmd_KTC_SAVE_POSITION_result by simp
  moreover have "get_status (snd (cmd_KTC_SAVE_POSITION
       \<lparr>get_float = [''X'' \<mapsto> 5], get_str = Map.empty, get_int = Map.empty\<rparr> init)) =
     [Some 5, None, None]"
    by (simp add: cmd_KTC_SAVE_POSITION_result adjust_only_def get_status_def init_def)
  ultimately show ?thesis by simp
qed

subsection \<open>C5: identifiers that are no axis\<close>

text \<open>
  Claim C5 says that capture and restore both ignore an identifier outside X, Y, Z and
  complete for the others. \<^verbatim>\<open>SaveCurrentPosition\<close> does: it tests
  \<^verbatim>\<open>axis in XYZ_TO_INDEX\<close> (line 87). \<^verbatim>\<open>restore_position\<close> has no such test: for the
  axes \<^verbatim>\<open>"XA"\<close> on the snapshot X = 1 the look-up of \<^verbatim>\<open>"A"\<close> raises \<^verbatim>\<open>KeyError\<close>, the
  call raises, and no command reaches the executor.
\<close>

theorem restore_unrecognized_axis_raises:
  "SaveCurrentPosition [1, 2, 3, 0] ''XA'' init =
     (Returned, \<lparr>saved_position = [Some 1, None, None], gcode_scripts = []\<rparr>) \<and>
   restore_position (\<lambda>c. None) ''XA'' None
       \<lparr>saved_position = [Some 1, None, None], gcode_scripts = []\<rparr> =
     (Raised (RestoreFailure (KeyError CHR ''A'')),
      \<lparr>saved_position = [Some 1, None, None], gcode_scripts = []\<rparr>)"
  by (simp add: restore_eval SaveCurrentPosition_def list_setitem_def init_def)

subsection \<open>C6: a failure of the executor\<close>

text \<open>
  Claim C6. When \<^verbatim>\<open>restore_position\<close> hands a command to the executor and the executor
  raises \<open>e\<close>, the call raises the wrapping exception whose cause is \<open>e\<close>, and the three
  slots of the snapshot are as they were.
\<close>

theorem executor_failure_is_chained:
  assumes "gcode_scripts (snd (restore_position run axes speed s)) = gcode_scripts s @ [cmd]"
    and "run cmd = Some e"
  shows "fst (restore_position run axes speed s) = Raised (RestoreFailure e) \<and>
         exc_cause (RestoreFailure e) = Some e \<and>
         saved_position (snd (restore_position run axes speed s)) = saved_position s"
  using assms
  by (auto simp: restore_position_def Let_def split: sum.splits if_splits option.splits)

theorem executor_failure_is_chained_witness:
  "gcode_scripts (snd (restore_position (\<lambda>c. Some (HostError ''Move out of range'')) ''X'' None
       \<lparr>saved_position = [Some 1, None, None], gcode_scripts = []\<rparr>)) = [] @ [''G0 X1.000''] \<and>
   fst (restore_position (\<lambda>c. Some (HostError ''Move out of range'')) ''X'' None
       \<lparr>saved_position = [Some 1, None, None], gcode_scripts = []\<rparr>) =
     Raised (RestoreFailure (HostError ''Move out of range'')) \<and>
   exc_cause (RestoreFailure (HostError ''Move out of range'')) = Some (HostError ''Move out of range'') \<and>
   saved_position (snd (restore_position (\<lambda>c. Some (HostError ''Move out of range'')) ''X'' None
       \<lparr>saved_position = [Some 1, None, None], gcode_scripts = []\<rparr>)) = [Some 1, None, None]"
proof -
  let ?run = "\<lambda>c :: string. Some (HostError ''Move out of range'')"
  let ?s = "\<lparr>saved_position = [Some 1, None, None], gcode_scripts = []\<rparr>"
  have sent: "gcode_scripts (snd (restore_position ?run ''X'' None ?s)) =
      gcode_scripts ?s @ [''G0 X1.000'']"
    by (simp add: restore_eval fmt_3f_1)
  have fails: "?run ''G0 X1.000'' = Some (HostError ''Move out of range'')" by simp
  from executor_failure_is_chained [OF sent fails] sent show ?thesis by simp
qed

subsection \<open>C7: capture, then restore\<close>

text \<open>
  Claim C7, as the code has it. After \<^verbatim>\<open>SaveCurrentPosition\<close> of X, Y and Z from a live
  position, \<^verbatim>\<open>restore_position\<close> of X, Y and Z without a feed rate calls the executor
  exactly once, with the command whose three terms are the live coordinates printed with
  three decimals: each axis is commanded to the coordinate rounded to the nearest
  thousandth (at most 0.0005 away from it), not to the coordinate itself.
\<close>

theorem round_trip_rounded:
  assumes "3 \<le> length cp"
  shows "restore_position run ''XYZ'' None (snd (SaveCurrentPosition cp ''XYZ'' s)) =
      (case run (''G0 X'' @ fmt_3f (cp ! 0) @ '' Y'' @ fmt_3f (cp ! 1) @ '' Z'' @ fmt_3f (cp ! 2)) of
         None \<Rightarrow> Returned
       | Some e \<Rightarrow> Raised (RestoreFailure e),
       s\<lparr>saved_position := [Some (cp ! 0), Some (cp ! 1), Some (cp ! 2)],
         gcode_scripts := gcode_scripts s @
           [''G0 X'' @ fmt_3f (cp ! 0) @ '' Y'' @ fmt_3f (cp ! 1) @ '' Z'' @ fmt_3f (cp ! 2)]\<rparr>)
    \<and> (\<forall>i < 3. \<bar>of_nat (thousandths (cp ! i)) / 1000 - \<bar>cp ! i\<bar>\<bar> \<le> 1 / 2000)"
proof -
  let ?s = "s\<lparr>saved_position := [Some (cp ! 0), Some (cp ! 1), Some (cp ! 2)]\<rparr>"
  have inv: "snapshot_inv ?s" by (simp add: snapshot_inv_def)
  have rec: "\<forall>a \<in> set ''XYZ''. recognized a" by (simp add: recognized_def)
  have terms: "axis_terms (saved_position ?s) ''XYZ'' =
      '' X'' @ fmt_3f (cp ! 0) @ '' Y'' @ fmt_3f (cp ! 1) @ '' Z'' @ fmt_3f (cp ! 2)"
    by (simp add: axis_terms_def axis_term_def XYZ_TO_INDEX_def)
  have "restore_position run ''XYZ'' None ?s =
      (case run (''G0 X'' @ fmt_3f (cp ! 0) @ '' Y'' @ fmt_3f (cp ! 1) @ '' Z'' @ fmt_3f (cp ! 2)) of
         None \<Rightarrow> Returned
       | Some e \<Rightarrow> Raised (RestoreFailure e),
       ?s\<lparr>gcode_scripts := gcode_scripts s @
           [''G0 X'' @ fmt_3f (cp ! 0) @ '' Y'' @ fmt_3f (cp ! 1) @ '' Z'' @ fmt_3f (cp ! 2)]\<rparr>)"
    unfolding restore_position_recognized [OF inv rec] terms
    by (simp add: feed_term_def)
  with assms have "restore_position run ''XYZ'' None (snd (SaveCurrentPosition cp ''XYZ'' s)) =
      (case run (''G0 X'' @ fmt_3f (cp ! 0) @ '' Y'' @ fmt_3f (cp ! 1) @ '' Z'' @ fmt_3f (cp ! 2)) of
         None \<Rightarrow> Returned
       | Some e \<Rightarrow> Raised (RestoreFailure e),
       s\<lparr>saved_position := [Some (cp ! 0), Some (cp ! 1), Some (cp ! 2)],
         gcode_scripts := gcode_scripts s @
           [''G0 X'' @ fmt_3f (cp ! 0) @ '' Y'' @ fmt_3f (cp ! 1) @ '' Z'' @ fmt_3f (cp ! 2)]\<rparr>)"
    by (simp add: capture_all)
  moreover have "\<forall>i < 3. \<bar>of_nat (thousandths (cp ! i)) / 1000 - \<bar>cp ! i\<bar>\<bar> \<le> 1 / 2000"
    using thousandths_error by blast
  ultimately show ?thesis by (rule conjI)
qed

theorem round_trip_rounded_witness:
  "3 \<le> length [10123 / 1000, 2, - 3, 0 :: rat] \<and>
   restore_position (\<lambda>c. None) ''XYZ'' None
       (snd (SaveCurrentPosition [10123 / 1000, 2, - 3, 0] ''XYZ'' init)) =
     (Returned, \<lparr>saved_position = [Some (10123 / 1000), Some 2, Some (- 3)],
                 gcode_scripts = [''G0 X10.123 Y2.000 Z-3.000'']\<rparr>)"
proof -
  have len: "3 \<le> length [10123 / 1000, 2, - 3, 0 :: rat]" by simp
  show ?thesis
    using round_trip_rounded [OF len, of "\<lambda>c. None" init]
    by (simp add: init_def fmt_3f_10123 fmt_3f_2 fmt_3f_minus_3)
qed

text \<open>
  The claim as it is written promises the exact coordinate. The live positions
  X = 1/4096 (a binary fraction, so a float) and X = 0 lead to the same command, which
  moves X to 0: the command cannot name the coordinate 1/4096.
\<close>

theorem round_trip_not_exact_counterexample:
  "gcode_scripts (snd (restore_position (\<lambda>c. None) ''XYZ'' None
       (snd (SaveCurrentPosition [1 / 4096, 0, 0, 0] ''XYZ'' init)))) = [''G0 X0.000 Y0.000 Z0.000''] \<and>
   gcode_scripts (snd (restore_position (\<lambda>c. None) ''XYZ'' None
       (snd (SaveCurrentPosition [0, 0, 0, 0] ''XYZ'' init)))) = [''G0 X0.000 Y0.000 Z0.000''] \<and>
   [1 / 4096, 0, 0, 0 :: rat] ! 0 \<noteq> [0, 0, 0, 0] ! 0"
  by (simp add: capture_all restore_eval init_def fmt_3f_4096th fmt_3f_0)

subsection \<open>C8: an absolute value and an adjustment for one axis\<close>

text \<open>
  Claim C8 says that for every payload that gives an absolute value and an adjustment for
  the same axis, the slot of that axis is set to the absolute value and the adjustment is
  ignored. The code tests the absolute value first (line 53), and when the command
  returns the slot holds it (\<open>absolute_value_when_returning\<close>): X = 1 with an adjustment
  of X by 2 on a new instance stores X = 1. But the command works on the fresh
  \<^verbatim>\<open>[None, None, None]\<close>, not on the stored snapshot, so an adjustment alone for another
  axis always raises: on the snapshot X = 0, Y = 2 (as \<^verbatim>\<open>KTC_SAVE_POSITION X=0 Y=2\<close>
  leaves it) the payload X = 1, adjustment of X by 2, adjustment of Y by 3 raises at Y and
  the slot of X still holds 0, where the stored Y = 2 would be adjusted to 5 and X set
  to 1.
\<close>

theorem absolute_lost_when_other_axis_adjusts:
  "cmd_KTC_SAVE_POSITION
       \<lparr>get_float = [''X'' \<mapsto> 1, ''X_ADJUST'' \<mapsto> 2], get_str = Map.empty, get_int = Map.empty\<rparr>
       init =
     (Returned, \<lparr>saved_position = [Some 1, None, None], gcode_scripts = []\<rparr>) \<and>
   get_status (snd (cmd_KTC_SAVE_POSITION
       \<lparr>get_float = [''X'' \<mapsto> 0, ''Y'' \<mapsto> 2], get_str = Map.empty, get_int = Map.empty\<rparr> init)) =
     [Some 0, Some 2, None] \<and>
   cmd_KTC_SAVE_POSITION
       \<lparr>get_float = [''X'' \<mapsto> 1, ''X_ADJUST'' \<mapsto> 2, ''Y_ADJUST'' \<mapsto> 3], get_str = Map.empty,
         get_int = Map.empty\<rparr>
       \<lparr>saved_position = [Some 0, Some 2, None], gcode_scripts = []\<rparr> =
     (Raised (SavePositionError TypeError),
      \<lparr>saved_position = [Some 0, Some 2, None], gcode_scripts = []\<rparr>)"
proof -
  have "adjust_only
      \<lparr>get_float = [''X'' \<mapsto> 1, ''X_ADJUST'' \<mapsto> 2, ''Y_ADJUST'' \<mapsto> 3], get_str = Map.empty,
        get_int = Map.empty\<rparr> CHR ''Y''"
    unfolding adjust_only_def by simp
  then have "cmd_KTC_SAVE_POSITION
       \<lparr>get_float = [''X'' \<mapsto> 1, ''X_ADJUST'' \<mapsto> 2, ''Y_ADJUST'' \<mapsto> 3], get_str = Map.empty,
         get_int = Map.empty\<rparr>
       \<lparr>saved_position = [Some 0, Some 2, None], gcode_scripts = []\<rparr> =
     (Raised (SavePositionError TypeError),
      \<lparr>saved_position = [Some 0, Some 2, None], gcode_scripts = []\<rparr>)"
    unfolding cmd_KTC_SAVE_POSITION_result by simp
  moreover have "cmd_KTC_SAVE_POSITION
       \<lparr>get_float = [''X'' \<mapsto> 1, ''X_ADJUST'' \<mapsto> 2], get_str = Map.empty, get_int = Map.empty\<rparr>
       init =
     (Returned, \<lparr>saved_position = [Some 1, None, None], gcode_scripts = []\<rparr>)"
    by (simp add: cmd_KTC_SAVE_POSITION_result adjust_only_def init_def)
  moreover have "get_status (snd (cmd_KTC_SAVE_POSITION
       \<lparr>get_float = [''X'' \<mapsto> 0, ''Y'' \<mapsto> 2], get_str = Map.empty, get_int = Map.empty\<rparr> init)) =
     [Some 0, Some 2, None]"
    by (simp add: cmd_KTC_SAVE_POSITION_result adjust_only_def get_status_def init_def)
  ultimately show ?thesis by simp
qed

subsection \<open>C9: the three slots\<close>

text \<open>
  Claim C9. The snapshot has exactly three slots, each a value or unset, when the
  instance is created, and every operation keeps it so, whether it returns or raises:
  \<^verbatim>\<open>KTC_SAVE_POSITION\<close>, \<^verbatim>\<open>SaveCurrentPosition\<close> and its command, \<^verbatim>\<open>restore_position\<close>
  and its command, and \<^verbatim>\<open>get_status\<close>, which reports the three slots.
\<close>

theorem snapshot_inv_preserved:
  "snapshot_inv init \<and>
   (snapshot_inv s \<longrightarrow>
      snapshot_inv (snd (cmd_KTC_SAVE_POSITION gcmd s)) \<and>
      snapshot_inv (snd (SaveCurrentPosition current_position axes s)) \<and>
      snapshot_inv (snd (cmd_KTC_SAVE_CURRENT_POSITION current_position gcmd s)) \<and>
      snapshot_inv (snd (restore_position run axes speed s)) \<and>
      snapshot_inv (snd (cmd_KTC_RESTORE_POSITION run gcmd s)) \<and>
      length (get_status s) = 3)"
proof -
  have "snapshot_inv init" by (simp add: init_def snapshot_inv_def)
  moreover have "snapshot_inv (snd (cmd_KTC_SAVE_POSITION gcmd s))" if "snapshot_inv s"
    using that by (rule cmd_KTC_SAVE_POSITION_inv)
  moreover have "snapshot_inv (snd (cmd_KTC_SAVE_CURRENT_POSITION current_position gcmd s))"
    by (simp add: cmd_KTC_SAVE_CURRENT_POSITION_def SaveCurrentPosition_inv)
  moreover have "snapshot_inv (snd (restore_position run axes speed s))" if "snapshot_inv s"
    using that by (simp add: snapshot_inv_def restore_position_saved)
  moreover have "snapshot_inv (snd (cmd_KTC_RESTORE_POSITION run gcmd s))" if "snapshot_inv s"
    using that by (simp add: snapshot_inv_def cmd_KTC_RESTORE_POSITION_saved)
  moreover have "length (get_status s) = 3" if "snapshot_inv s"
    using that by (simp add: snapshot_inv_def get_status_def)
  ultimately show ?thesis using SaveCurrentPosition_inv by blast
qed

theorem snapshot_inv_preserved_witness:
  "snapshot_inv init \<and>
   snapshot_inv (snd (cmd_KTC_SAVE_POSITION
       \<lparr>get_float = [''Y_ADJUST'' \<mapsto> 1], get_str = Map.empty, get_int = Map.empty\<rparr> init)) \<and>
   snapshot_inv (snd (SaveCurrentPosition [4, 5] ''XZ'' init)) \<and>
   snapshot_inv (snd (restore_position (\<lambda>c. None) ''XZ'' (Some 3000) init)) \<and>
   length (get_status init) = 3"
  using snapshot_inv_preserved [where s = init
      and gcmd = "\<lparr>get_float = [''Y_ADJUST'' \<mapsto> 1], get_str = Map.empty, get_int = Map.empty\<rparr>"
      and current_position = "[4, 5]" and axes = "''XZ''" and run = "\<lambda>c. None"
      and speed = "Some 3000"]
  by blast

subsection \<open>C10: the feed rate 0\<close>



end
